theory Spec2Isabelle
  imports Main "HOL-Library.Word"
begin

section \<open>The RPC API service of go-nebulas (rpc/api\_service.go)\<close>

text \<open>
  The handlers of \<^verbatim>\<open>APIService\<close> translate wire requests into domain objects, call the
  ledger, the account manager, the transaction pool and the network, and format what
  they return. The handlers are embedded as functions of the things they read:
  \<^item> the packages \<^verbatim>\<open>core\<close>, \<^verbatim>\<open>util\<close>, \<^verbatim>\<open>hash\<close> and \<^verbatim>\<open>byteutils\<close>, whose functions and
    constants the handlers call, are the record \<open>pkgs\<close>;
  \<^item> the node behind \<^verbatim>\<open>s.server.Neblet()\<close> is the record \<open>neblet\<close>;
  \<^item> every call with an effect outside the handler (a metrics counter, the signer, the
    pool, the gas estimator, the emitters, the outbound stream) is written, in program
    order, into the list of \<open>call\<close>s the handler returns beside its result.
  A Go result \<^verbatim>\<open>(v, err)\<close> whose error ends the handler is a sum \<open>error + 'a\<close>; one whose
  error the handler drops, or whose value it compares with \<^verbatim>\<open>nil\<close>, is a pair of options.
  Logging is not modelled.
\<close>

subsection \<open>Data\<close>

type_synonym bytes = "8 word list"
type_synonym uint32 = "32 word"
type_synonym uint64 = "64 word"
type_synonym int64 = "64 word"
type_synonym uint128 = "128 word"

text \<open>\<^verbatim>\<open>core.Address\<close>: the handlers read it through \<^verbatim>\<open>Bytes()\<close> and \<^verbatim>\<open>String()\<close> only.\<close>

datatype address = Address (Bytes: bytes)

text \<open>
  The errors the handlers make themselves, by \<^verbatim>\<open>errors.New\<close>:
  \<^verbatim>\<open>"nonce is invalid"\<close>, \<^verbatim>\<open>"block not found"\<close>, \<^verbatim>\<open>"transaction not found"\<close>.
  \<open>Failure\<close> is an error value handed back by a collaborator, and
  \<open>NilPointerDereference\<close> the panic of a method called on a \<^verbatim>\<open>nil\<close> pointer.
\<close>

datatype error =
    NonceIsInvalid
  | BlockNotFound
  | TransactionNotFound
  | NilPointerDereference
  | Failure string

text \<open>
  The string constants \<^verbatim>\<open>core.TxPayload...Type\<close> are declared outside the handlers' file;
  they are the five tags of the payload variant.
\<close>

datatype payloadType =
    TxPayloadBinaryType
  | TxPayloadDeployType
  | TxPayloadCallType
  | TxPayloadCandidateType
  | TxPayloadDelegateType

text \<open>\<^verbatim>\<open>rpcpb.TransactionRequest\<close> and its three optional groups (\<^verbatim>\<open>nil\<close> is \<open>None\<close>).\<close>

record contractRequest =
  Source :: string
  SourceType :: string
  Function :: string
  Args :: string

record candidateRequest =
  candidate_Action :: string

record delegateRequest =
  delegate_Action :: string
  Delegatee :: string

record transactionRequest =
  req_From :: string
  req_To :: string
  req_Value :: string
  req_Nonce :: uint64
  req_GasPrice :: string
  req_GasLimit :: string
  req_Contract :: "contractRequest option"
  req_Candidate :: "candidateRequest option"
  req_Delegate :: "delegateRequest option"

text \<open>
  \<^verbatim>\<open>core.Transaction\<close>, read by the handlers through its getters. The hash is computed
  from the transaction (\<open>TxHash\<close> below), never supplied by the caller.
\<close>

record transaction =
  tx_chainID :: uint32
  tx_from :: address
  tx_to :: address
  tx_value :: uint128
  tx_nonce :: uint64
  tx_timestamp :: int64
  tx_type :: payloadType
  tx_data :: bytes
  tx_gasPrice :: uint128
  tx_gasLimit :: uint128
  tx_sign :: bytes

record event =
  Topic :: string
  event_Data :: string

record dposContext =
  DynastyRoot :: bytes
  NextDynastyRoot :: bytes
  DelegateRoot :: bytes
  CandidateRoot :: bytes
  VoteRoot :: bytes
  MintCntRoot :: bytes

text \<open>
  \<^verbatim>\<open>core.Block\<close>: the header fields \<^verbatim>\<open>toBlockResponse\<close> reads, the transactions, and the
  state queries the handlers make on a block. \<^verbatim>\<open>FetchEvents\<close> and the block's own
  \<^verbatim>\<open>GetTransaction\<close> return a value and an error, each of which may be \<^verbatim>\<open>nil\<close>.
\<close>

record block =
  blk_Hash :: bytes
  blk_ParentHash :: bytes
  blk_Height :: uint64
  blk_Nonce :: uint64
  blk_Coinbase :: address
  blk_Miner :: address
  blk_Timestamp :: int64
  blk_ChainID :: uint32
  blk_StateRoot :: bytes
  blk_TxsRoot :: bytes
  blk_EventsRoot :: bytes
  blk_DposContext :: dposContext
  blk_Transactions :: "transaction list"
  GetBalance :: "bytes \<Rightarrow> uint128"
  GetNonce :: "bytes \<Rightarrow> uint64"
  FetchEvents :: "bytes \<Rightarrow> event list option \<times> error option"
  blk_GetTransaction :: "bytes \<Rightarrow> transaction option \<times> error option"

subsection \<open>Collaborators\<close>

text \<open>
  The functions and constants of the packages the handlers import. Their code is not
  part of the handlers' file; each is a parameter, named as the source names it.
  \<open>DeployPayloadToBytes src ty args\<close> is
  \<^verbatim>\<open>core.NewDeployPayload(src, ty, args).ToBytes()\<close>, and so on for the other payloads.
  \<open>DecodeBlockToJSON\<close> is the chain \<^verbatim>\<open>proto.Unmarshal\<close>, \<^verbatim>\<open>block.FromProto\<close>, \<^verbatim>\<open>json.Marshal\<close> of
  \<^verbatim>\<open>Subscribe\<close> (lines 509 to 520), which returns the first error of the three at once;
  \<open>DecodeTxToJSON\<close> is the same chain for a transaction (lines 523 to 534).
\<close>

record pkgs =
  AddressParse :: "string \<Rightarrow> error + address"
  AddressString :: "address \<Rightarrow> string"
  NewUint128FromString :: "string \<Rightarrow> uint128"
  Uint128String :: "uint128 \<Rightarrow> string"
  DeployPayloadToBytes :: "string \<Rightarrow> string \<Rightarrow> string \<Rightarrow> error + bytes"
  CallPayloadToBytes :: "string \<Rightarrow> string \<Rightarrow> error + bytes"
  CandidatePayloadToBytes :: "string \<Rightarrow> error + bytes"
  DelegatePayloadToBytes :: "string \<Rightarrow> string \<Rightarrow> error + bytes"
  Now :: int64
  TxHash :: "transaction \<Rightarrow> bytes"
  Sha3256 :: "bytes list \<Rightarrow> bytes"
  FromUint64 :: "uint64 \<Rightarrow> bytes"
  NewContractAddressFromHash :: "bytes \<Rightarrow> address option \<times> error option"
  FromHex :: "string \<Rightarrow> bytes \<times> error option"
  Hex :: "bytes \<Rightarrow> string"
  HashString :: "bytes \<Rightarrow> string"
  TopicExecuteTxSuccess :: string
  TopicExecuteTxFailed :: string
  MessageTypeNewBlock :: string
  MessageTypeNewTx :: string
  DecodeBlockToJSON :: "bytes \<Rightarrow> error + string"
  DecodeTxToJSON :: "bytes \<Rightarrow> error + string"

text \<open>
  \<^verbatim>\<open>neb.BlockChain()\<close> with its transaction pool, and \<^verbatim>\<open>neb.AccountManager()\<close>.
  \<^verbatim>\<open>SignTransaction(addr, tx)\<close> writes the signature into \<^verbatim>\<open>tx\<close>: here it returns the
  signed transaction.
\<close>

record blockchain =
  ChainID :: uint32
  TailBlock :: block
  GetBlock :: "bytes \<Rightarrow> block option"
  GetBlockOnCanonicalChainByHeight :: "uint64 \<Rightarrow> block option"
  chain_LatestIrreversibleBlock :: "block option"
  GetTransaction :: "bytes \<Rightarrow> transaction option"
  EstimateGas :: "transaction \<Rightarrow> error + uint128"
  PushAndBroadcast :: "transaction \<Rightarrow> error option"

record neblet =
  BlockChain :: blockchain
  SignTransaction :: "address \<Rightarrow> transaction \<Rightarrow> error + transaction"

subsection \<open>Wire responses\<close>

record sendTransactionResponse =
  Txhash :: string
  st_ContractAddress :: string

record getAccountStateResponse =
  Balance :: string
  as_Nonce :: string

text \<open>
  \<^verbatim>\<open>rpcpb.TransactionResponse\<close>. \<open>tr_Type\<close> is the type string of the wire message: \<open>None\<close> is
  the empty string of a field never assigned.
\<close>

record transactionResponse =
  tr_ChainId :: uint32
  tr_Hash :: string
  tr_From :: string
  tr_To :: string
  tr_Value :: string
  tr_Nonce :: uint64
  tr_Timestamp :: int64
  tr_Type :: "payloadType option"
  tr_Data :: bytes
  tr_GasPrice :: string
  tr_GasLimit :: string
  tr_Status :: uint32
  tr_ContractAddress :: string

text \<open>
  \<^verbatim>\<open>rpcpb.BlockResponse\<close>. \<open>br_Transactions\<close> is the transaction list of the wire message;
  a field the handler does not assign keeps Go's zero value, the empty list.
\<close>

record dposContextResponse =
  dr_DynastyRoot :: string
  dr_NextDynastyRoot :: string
  dr_DelegateRoot :: string
  dr_CandidateRoot :: string
  dr_VoteRoot :: string
  dr_MintCntRoot :: string

record blockResponse =
  br_Hash :: string
  br_ParentHash :: string
  br_Height :: uint64
  br_Nonce :: uint64
  br_Coinbase :: string
  br_Miner :: string
  br_Timestamp :: int64
  br_ChainId :: uint32
  br_StateRoot :: string
  br_TxsRoot :: string
  br_EventsRoot :: string
  br_DposContext :: "dposContextResponse option"
  br_Transactions :: "transactionResponse list"

record subscribeResponse =
  MsgType :: string
  sr_Data :: string

text \<open>The requests that carry more than a hash.\<close>

record getAccountStateRequest =
  gas_Address :: string
  gas_Height :: uint64

record getBlockByHashRequest =
  bh_Hash :: string
  bh_FullTransaction :: bool

record getBlockByHeightRequest =
  bn_Height :: uint64
  bn_FullTransaction :: bool

text \<open>
  A network message on the session's channel (\<^verbatim>\<open>nnet.Message\<close>), and what the \<^verbatim>\<open>select\<close> of
  \<^verbatim>\<open>Subscribe\<close> receives next: an event of the chain emitter or a message of the network.
\<close>

record message =
  MessageType :: string
  msg_Data :: bytes

datatype delivery = ChainEvent event | NetEvent message

text \<open>The effects a handler has outside itself, in program order.\<close>

datatype call =
    Mark string
  | SignTransactionCall address transaction
  | PushAndBroadcastCall transaction
  | EstimateGasCall transaction
  | EmitterRegister string
  | EmitterDeregister string
  | NetRegister string
  | NetDeregister string
  | Send subscribeResponse

subsection \<open>Building a transaction\<close>

text \<open>
  Modelled from the spec: \<^verbatim>\<open>core.NewTransaction\<close>, whose code is outside the handlers' file.
  The transaction carries the chain id, both addresses, value, nonce, payload type tag,
  payload bytes, gas price and gas limit it is given, and the time of the clock \<open>Now\<close>;
  it is not signed yet.
\<close>

definition NewTransaction ::
  "pkgs \<Rightarrow> uint32 \<Rightarrow> address \<Rightarrow> address \<Rightarrow> uint128 \<Rightarrow> uint64 \<Rightarrow> payloadType \<Rightarrow> bytes
     \<Rightarrow> uint128 \<Rightarrow> uint128 \<Rightarrow> transaction" where
  "NewTransaction pk chainID from to v nonce payloadType payload gasPrice gasLimit =
     \<lparr> tx_chainID = chainID, tx_from = from, tx_to = to, tx_value = v, tx_nonce = nonce,
       tx_timestamp = Now pk, tx_type = payloadType, tx_data = payload,
       tx_gasPrice = gasPrice, tx_gasLimit = gasLimit, tx_sign = [] \<rparr>"

text \<open>
  The \<^verbatim>\<open>if\<close> chain of \<^verbatim>\<open>parseTransaction\<close> (lines 237 to 255): the payload type, and the
  result of serialising the payload. The two tests on \<^verbatim>\<open>reqTx.Contract\<close> both start with
  \<^verbatim>\<open>reqTx.Contract != nil\<close>; \<open>rest\<close> is the chain from \<^verbatim>\<open>reqTx.Candidate != nil\<close> on, reached
  when neither holds. In the last branch nothing is serialised, the payload stays
  \<^verbatim>\<open>nil\<close> and \<^verbatim>\<open>err\<close> is still the \<^verbatim>\<open>nil\<close> of the address parse before.
\<close>

definition selectPayload :: "pkgs \<Rightarrow> transactionRequest \<Rightarrow> payloadType \<times> (error + bytes)" where
  "selectPayload pk reqTx =
     (let rest =
        (case req_Candidate reqTx of
           Some cand \<Rightarrow>
             (TxPayloadCandidateType, CandidatePayloadToBytes pk (candidate_Action cand))
         | None \<Rightarrow>
            (case req_Delegate reqTx of
               Some d \<Rightarrow>
                 (TxPayloadDelegateType,
                  DelegatePayloadToBytes pk (delegate_Action d) (Delegatee d))
             | None \<Rightarrow> (TxPayloadBinaryType, Inr [])))
      in case req_Contract reqTx of
           None \<Rightarrow> rest
         | Some c \<Rightarrow>
             if length (Source c) > 0 then
               (TxPayloadDeployType,
                DeployPayloadToBytes pk (Source c) (SourceType c) (Args c))
             else if length (Function c) > 0 then
               (TxPayloadCallType, CallPayloadToBytes pk (Function c) (Args c))
             else rest)"

definition parseTransaction :: "pkgs \<Rightarrow> neblet \<Rightarrow> transactionRequest \<Rightarrow> error + transaction" where
  "parseTransaction pk neb reqTx =
     (case AddressParse pk (req_From reqTx) of
        Inl err \<Rightarrow> Inl err
      | Inr fromAddr \<Rightarrow>
         (case AddressParse pk (req_To reqTx) of
            Inl err \<Rightarrow> Inl err
          | Inr toAddr \<Rightarrow>
             (let v = NewUint128FromString pk (req_Value reqTx);
                  gasPrice = NewUint128FromString pk (req_GasPrice reqTx);
                  gasLimit = NewUint128FromString pk (req_GasLimit reqTx);
                  (payloadType, payload) = selectPayload pk reqTx
              in case payload of
                   Inl err \<Rightarrow> Inl err
                 | Inr p \<Rightarrow>
                     Inr (NewTransaction pk (ChainID (BlockChain neb)) fromAddr toAddr v
                            (req_Nonce reqTx) payloadType p gasPrice gasLimit))))"

subsection \<open>Submitting a transaction\<close>

text \<open>
  The derivation both \<^verbatim>\<open>sendTransaction\<close> (line 214) and \<^verbatim>\<open>SendRawTransaction\<close> write out:
  \<^verbatim>\<open>core.NewContractAddressFromHash(hash.Sha3256(from.Bytes(), byteutils.FromUint64(nonce)))\<close>.
\<close>

definition contractAddressOf :: "pkgs \<Rightarrow> address \<Rightarrow> uint64 \<Rightarrow> address option \<times> error option" where
  "contractAddressOf pk from nonce =
     NewContractAddressFromHash pk (Sha3256 pk [Bytes from, FromUint64 pk nonce])"

text \<open>
  \<^verbatim>\<open>sendTransaction\<close>. In the deploy branch the error of \<^verbatim>\<open>NewContractAddressFromHash\<close> is
  dropped and \<^verbatim>\<open>address.String()\<close> is called after the success counter is marked; on a
  \<^verbatim>\<open>nil\<close> address that call is a nil dereference.
\<close>

definition sendTransaction ::
  "pkgs \<Rightarrow> neblet \<Rightarrow> transactionRequest \<Rightarrow> call list \<times> (error + sendTransactionResponse)" where
  "sendTransaction pk neb req =
     (let tail = TailBlock (BlockChain neb) in
      case AddressParse pk (req_From req) of
        Inl err \<Rightarrow> ([Mark ''metricsSendTxFailed''], Inl err)
      | Inr addr \<Rightarrow>
         if req_Nonce req \<le> GetNonce tail (Bytes addr) then
           ([Mark ''metricsSendTxFailed''], Inl NonceIsInvalid)
         else
           (case parseTransaction pk neb req of
              Inl err \<Rightarrow> ([Mark ''metricsSendTxFailed''], Inl err)
            | Inr tx0 \<Rightarrow>
               (case SignTransaction neb (tx_from tx0) tx0 of
                  Inl err \<Rightarrow>
                    ([SignTransactionCall (tx_from tx0) tx0, Mark ''metricsSendTxFailed''], Inl err)
                | Inr tx \<Rightarrow>
                   (case PushAndBroadcast (BlockChain neb) tx of
                      Some err \<Rightarrow>
                        ([SignTransactionCall (tx_from tx0) tx0, PushAndBroadcastCall tx,
                          Mark ''metricsSendTxFailed''], Inl err)
                    | None \<Rightarrow>
                       if tx_type tx = TxPayloadDeployType then
                         (case fst (contractAddressOf pk (tx_from tx) (tx_nonce tx)) of
                            None \<Rightarrow>
                              ([SignTransactionCall (tx_from tx0) tx0, PushAndBroadcastCall tx,
                                Mark ''metricsSendTxSuccess''], Inl NilPointerDereference)
                          | Some a \<Rightarrow>
                              ([SignTransactionCall (tx_from tx0) tx0, PushAndBroadcastCall tx,
                                Mark ''metricsSendTxSuccess''],
                               Inr \<lparr> Txhash = HashString pk (TxHash pk tx),
                                     st_ContractAddress = AddressString pk a \<rparr>))
                       else
                         ([SignTransactionCall (tx_from tx0) tx0, PushAndBroadcastCall tx,
                           Mark ''metricsSendTxSuccess''],
                          Inr \<lparr> Txhash = HashString pk (TxHash pk tx),
                                st_ContractAddress = [] \<rparr>)))))"

definition SendTransaction ::
  "pkgs \<Rightarrow> neblet \<Rightarrow> transactionRequest \<Rightarrow> call list \<times> (error + sendTransactionResponse)" where
  "SendTransaction pk neb req =
     (let (calls, r) = sendTransaction pk neb req in (Mark ''metricsRPCCounter'' # calls, r))"

subsection \<open>Account state\<close>

text \<open>\<^verbatim>\<open>fmt.Sprintf("%d", n)\<close> for an unsigned \<^verbatim>\<open>n\<close>: the decimal digits, most significant first.\<close>

fun Sprintf_d :: "nat \<Rightarrow> string" where
  "Sprintf_d n =
     (if n < 10 then [''0123456789'' ! n]
      else Sprintf_d (n div 10) @ [''0123456789'' ! (n mod 10)])"

declare Sprintf_d.simps [simp del]

definition GetAccountState ::
  "pkgs \<Rightarrow> neblet \<Rightarrow> getAccountStateRequest \<Rightarrow> call list \<times> (error + getAccountStateResponse)" where
  "GetAccountState pk neb req =
     (case AddressParse pk (gas_Address req) of
        Inl err \<Rightarrow> ([Mark ''metricsRPCCounter'', Mark ''metricsAccountStateFailed''], Inl err)
      | Inr addr \<Rightarrow>
         (case (if gas_Height req > 0
                then GetBlockOnCanonicalChainByHeight (BlockChain neb) (gas_Height req)
                else Some (TailBlock (BlockChain neb))) of
            None \<Rightarrow>
              ([Mark ''metricsRPCCounter'', Mark ''metricsAccountStateFailed''], Inl BlockNotFound)
          | Some block \<Rightarrow>
              (let balance = GetBalance block (Bytes addr);
                   nonce = GetNonce block (Bytes addr)
               in ([Mark ''metricsRPCCounter'', Mark ''metricsAccountStateSuccess''],
                   Inr \<lparr> Balance = Uint128String pk balance,
                         as_Nonce = Sprintf_d (unat nonce) \<rparr>))))"

subsection \<open>Transactions and blocks on the wire\<close>

text \<open>
  Modelled from the spec: \<^verbatim>\<open>tx.GenerateContractAddress()\<close>, whose code is outside the
  handlers' file. The contract address is derived as a hash over the from-address bytes
  and the nonce bytes, the derivation used at submission time.
\<close>

definition GenerateContractAddress :: "pkgs \<Rightarrow> transaction \<Rightarrow> address option \<times> error option" where
  "GenerateContractAddress pk tx = contractAddressOf pk (tx_from tx) (tx_nonce tx)"

text \<open>
  The \<^verbatim>\<open>for\<close> loop of \<^verbatim>\<open>toTransactionResponse\<close> (lines 432 to 441) over the events, on the
  variable \<^verbatim>\<open>status\<close>: the first success or failure topic sets it and breaks.
\<close>

fun statusLoop :: "pkgs \<Rightarrow> uint32 \<Rightarrow> event list \<Rightarrow> uint32" where
  "statusLoop pk status [] = status"
| "statusLoop pk status (v # vs) =
     (if Topic v = TopicExecuteTxSuccess pk then 1
      else if Topic v = TopicExecuteTxFailed pk then 0
      else statusLoop pk status vs)"

text \<open>
  \<^verbatim>\<open>toTransactionResponse\<close>. \<^verbatim>\<open>var status uint32\<close> starts at 0; the error of \<^verbatim>\<open>FetchEvents\<close>
  is dropped.
\<close>

definition toTransactionResponse :: "pkgs \<Rightarrow> neblet \<Rightarrow> transaction \<Rightarrow> error + transactionResponse" where
  "toTransactionResponse pk neb tx =
     (let events = fst (FetchEvents (TailBlock (BlockChain neb)) (TxHash pk tx));
          status = (case events of None \<Rightarrow> 2 | Some evs \<Rightarrow> statusLoop pk 0 evs);
          resp = \<lparr> tr_ChainId = tx_chainID tx,
                   tr_Hash = HashString pk (TxHash pk tx),
                   tr_From = AddressString pk (tx_from tx),
                   tr_To = AddressString pk (tx_to tx),
                   tr_Value = Uint128String pk (tx_value tx),
                   tr_Nonce = tx_nonce tx,
                   tr_Timestamp = tx_timestamp tx,
                   tr_Type = Some (tx_type tx),
                   tr_Data = tx_data tx,
                   tr_GasPrice = Uint128String pk (tx_gasPrice tx),
                   tr_GasLimit = Uint128String pk (tx_gasLimit tx),
                   tr_Status = status,
                   tr_ContractAddress = [] \<rparr>
      in if tx_type tx = TxPayloadDeployType then
           (case GenerateContractAddress pk tx of
              (_, Some err) \<Rightarrow> Inl err
            | (None, None) \<Rightarrow> Inl NilPointerDereference
            | (Some contractAddr, None) \<Rightarrow>
                Inr (resp\<lparr> tr_ContractAddress := AddressString pk contractAddr \<rparr>))
         else Inr resp)"

definition GetTransactionReceipt ::
  "pkgs \<Rightarrow> neblet \<Rightarrow> string \<Rightarrow> call list \<times> (error + transactionResponse)" where
  "GetTransactionReceipt pk neb hash =
     (let bhash = fst (FromHex pk hash) in
      case GetTransaction (BlockChain neb) bhash of
        None \<Rightarrow> ([Mark ''metricsRPCCounter''], Inl TransactionNotFound)
      | Some tx \<Rightarrow> ([Mark ''metricsRPCCounter''], toTransactionResponse pk neb tx))"

text \<open>
  \<^verbatim>\<open>toBlockResponse\<close>. The loop over \<^verbatim>\<open>block.Transactions()\<close> (lines 366 to 375) appends to
  the local slice \<^verbatim>\<open>txs\<close>, dropping the error of \<^verbatim>\<open>toTransactionResponse\<close> (its response is
  then \<^verbatim>\<open>nil\<close>); the function returns \<^verbatim>\<open>resp\<close> right after the loop.
\<close>

definition toBlockResponse :: "pkgs \<Rightarrow> neblet \<Rightarrow> block option \<Rightarrow> bool \<Rightarrow> error + blockResponse" where
  "toBlockResponse pk neb block fullTransaction =
     (case block of
        None \<Rightarrow> Inl BlockNotFound
      | Some b \<Rightarrow>
         (let resp = \<lparr> br_Hash = HashString pk (blk_Hash b),
                       br_ParentHash = HashString pk (blk_ParentHash b),
                       br_Height = blk_Height b,
                       br_Nonce = blk_Nonce b,
                       br_Coinbase = AddressString pk (blk_Coinbase b),
                       br_Miner = AddressString pk (blk_Miner b),
                       br_Timestamp = blk_Timestamp b,
                       br_ChainId = blk_ChainID b,
                       br_StateRoot = HashString pk (blk_StateRoot b),
                       br_TxsRoot = HashString pk (blk_TxsRoot b),
                       br_EventsRoot = HashString pk (blk_EventsRoot b),
                       br_DposContext = None,
                       br_Transactions = [] \<rparr>;
              dposContextResp =
                \<lparr> dr_DynastyRoot = Hex pk (DynastyRoot (blk_DposContext b)),
                  dr_NextDynastyRoot = Hex pk (NextDynastyRoot (blk_DposContext b)),
                  dr_DelegateRoot = Hex pk (DelegateRoot (blk_DposContext b)),
                  dr_CandidateRoot = Hex pk (CandidateRoot (blk_DposContext b)),
                  dr_VoteRoot = Hex pk (VoteRoot (blk_DposContext b)),
                  dr_MintCntRoot = Hex pk (MintCntRoot (blk_DposContext b)) \<rparr>;
              resp = resp\<lparr> br_DposContext := Some dposContextResp \<rparr>;
              txs = map (\<lambda>v.
                      if fullTransaction then
                        (case toTransactionResponse pk neb v of
                           Inl _ \<Rightarrow> None
                         | Inr tx \<Rightarrow> Some tx)
                      else
                        Some \<lparr> tr_ChainId = 0, tr_Hash = HashString pk (TxHash pk v),
                               tr_From = [], tr_To = [], tr_Value = [], tr_Nonce = 0,
                               tr_Timestamp = 0, tr_Type = None, tr_Data = [],
                               tr_GasPrice = [], tr_GasLimit = [], tr_Status = 0,
                               tr_ContractAddress = [] \<rparr>)
                    (blk_Transactions b)
          in Inr resp))"

definition GetBlockByHash ::
  "pkgs \<Rightarrow> neblet \<Rightarrow> getBlockByHashRequest \<Rightarrow> call list \<times> (error + blockResponse)" where
  "GetBlockByHash pk neb req =
     (case FromHex pk (bh_Hash req) of
        (_, Some err) \<Rightarrow> ([Mark ''metricsRPCCounter''], Inl err)
      | (bhash, None) \<Rightarrow>
          ([Mark ''metricsRPCCounter''],
           toBlockResponse pk neb (GetBlock (BlockChain neb) bhash) (bh_FullTransaction req)))"

definition GetBlockByHeight ::
  "pkgs \<Rightarrow> neblet \<Rightarrow> getBlockByHeightRequest \<Rightarrow> call list \<times> (error + blockResponse)" where
  "GetBlockByHeight pk neb req =
     ([Mark ''metricsRPCCounter''],
      toBlockResponse pk neb
        (GetBlockOnCanonicalChainByHeight (BlockChain neb) (bn_Height req))
        (bn_FullTransaction req))"

definition LatestIrreversibleBlock :: "pkgs \<Rightarrow> neblet \<Rightarrow> call list \<times> (error + blockResponse)" where
  "LatestIrreversibleBlock pk neb =
     ([Mark ''metricsRPCCounter''],
      toBlockResponse pk neb (chain_LatestIrreversibleBlock (BlockChain neb)) False)"

subsection \<open>Gas used and events of a transaction\<close>

definition GetGasUsed :: "pkgs \<Rightarrow> neblet \<Rightarrow> string \<Rightarrow> call list \<times> (error + string)" where
  "GetGasUsed pk neb hash =
     (case FromHex pk hash of
        (_, Some err) \<Rightarrow> ([Mark ''metricsRPCCounter''], Inl err)
      | (h, None) \<Rightarrow>
         (case GetTransaction (BlockChain neb) h of
            None \<Rightarrow> ([Mark ''metricsRPCCounter''], Inl TransactionNotFound)
          | Some tx \<Rightarrow>
             (case EstimateGas (BlockChain neb) tx of
                Inl err \<Rightarrow> ([Mark ''metricsRPCCounter'', EstimateGasCall tx], Inl err)
              | Inr gas \<Rightarrow>
                  ([Mark ''metricsRPCCounter'', EstimateGasCall tx],
                   Inr (Uint128String pk gas)))))"

text \<open>
  \<^verbatim>\<open>GetEventsByHash\<close>. The error of \<^verbatim>\<open>FromHex\<close> is dropped. The result is the response
  pointer and the error: \<open>Inr None\<close> is \<^verbatim>\<open>return nil, nil\<close>. Ranging over a \<^verbatim>\<open>nil\<close> slice
  of events runs no iteration.
\<close>

definition GetEventsByHash ::
  "pkgs \<Rightarrow> neblet \<Rightarrow> string \<Rightarrow> call list \<times> (error + event list option)" where
  "GetEventsByHash pk neb hash =
     (let bhash = fst (FromHex pk hash) in
      case blk_GetTransaction (TailBlock (BlockChain neb)) bhash of
        (_, Some err) \<Rightarrow> ([Mark ''metricsRPCCounter''], Inl err)
      | (None, None) \<Rightarrow> ([Mark ''metricsRPCCounter''], Inr None)
      | (Some tx, None) \<Rightarrow>
         (case FetchEvents (TailBlock (BlockChain neb)) (TxHash pk tx) of
            (_, Some err) \<Rightarrow> ([Mark ''metricsRPCCounter''], Inl err)
          | (result, None) \<Rightarrow>
              ([Mark ''metricsRPCCounter''],
               Inr (Some (map (\<lambda>v. \<lparr> Topic = Topic v, event_Data = event_Data v \<rparr>)
                            (case result of None \<Rightarrow> [] | Some evs \<Rightarrow> evs))))))"

subsection \<open>The subscription stream\<close>

text \<open>
  The \<^verbatim>\<open>for\<close>/\<^verbatim>\<open>select\<close> loop of \<^verbatim>\<open>Subscribe\<close> (lines 499 to 538), run on the deliveries the two
  channels hand to the \<^verbatim>\<open>select\<close>, in the order it takes them. Each delivery comes with
  what \<^verbatim>\<open>gs.Send\<close> answers if the loop sends for it (\<open>None\<close> is a \<^verbatim>\<open>nil\<close> error). The loop
  returns the calls made and \<open>Some err\<close> when it executed \<^verbatim>\<open>return err\<close>; \<open>None\<close> means that
  the deliveries are used up and the loop is back at the \<^verbatim>\<open>select\<close>, waiting.

  For a chain event the error of \<^verbatim>\<open>gs.Send\<close> is tested and returned (lines 502 to 505).
  For a network message it is assigned to \<^verbatim>\<open>err\<close> (lines 521 and 535) and the \<^verbatim>\<open>switch\<close>
  ends: no statement reads it before the next iteration. A message of neither kind
  matches no \<^verbatim>\<open>case\<close>.
\<close>

fun streamLoop :: "pkgs \<Rightarrow> (delivery \<times> error option) list \<Rightarrow> call list \<times> error option" where
  "streamLoop pk [] = ([], None)"
| "streamLoop pk ((ChainEvent event, sendErr) # ds) =
     (let snd_call = Send \<lparr> MsgType = Topic event, sr_Data = event_Data event \<rparr> in
      case sendErr of
        Some err \<Rightarrow> ([snd_call], Some err)
      | None \<Rightarrow> (let (calls, r) = streamLoop pk ds in (snd_call # calls, r)))"
| "streamLoop pk ((NetEvent event, sendErr) # ds) =
     (if MessageType event = MessageTypeNewBlock pk then
        (case DecodeBlockToJSON pk (msg_Data event) of
           Inl err \<Rightarrow> ([], Some err)
         | Inr blockjson \<Rightarrow>
             (let (calls, r) = streamLoop pk ds in
              (Send \<lparr> MsgType = MessageType event, sr_Data = blockjson \<rparr> # calls, r)))
      else if MessageType event = MessageTypeNewTx pk then
        (case DecodeTxToJSON pk (msg_Data event) of
           Inl err \<Rightarrow> ([], Some err)
         | Inr txjson \<Rightarrow>
             (let (calls, r) = streamLoop pk ds in
              (Send \<lparr> MsgType = MessageType event, sr_Data = txjson \<rparr> # calls, r)))
      else streamLoop pk ds)"

text \<open>
  \<^verbatim>\<open>Subscribe\<close>: the registrations, the loop, and, when the function returns, its deferred
  calls, last deferred first: the network deregistration for new transactions, the one
  for new blocks, then the emitter deregistration of every topic of the request.
  While the loop has not returned no deferred call has run.
\<close>

definition Subscribe ::
  "pkgs \<Rightarrow> string list \<Rightarrow> (delivery \<times> error option) list \<Rightarrow> call list \<times> error option" where
  "Subscribe pk topics ds =
     (let registering =
            Mark ''metricsRPCCounter'' # map EmitterRegister topics
            @ [NetRegister (MessageTypeNewBlock pk), NetRegister (MessageTypeNewTx pk)];
          (streaming, r) = streamLoop pk ds
      in case r of
           None \<Rightarrow> (registering @ streaming, None)
         | Some err \<Rightarrow>
             (registering @ streaming
              @ [NetDeregister (MessageTypeNewTx pk), NetDeregister (MessageTypeNewBlock pk)]
              @ map EmitterDeregister topics,
              Some err))"

subsection \<open>The payload precedence in the words of the specification\<close>

text \<open>
  The specification orders the payload groups: deploy, call, candidate, delegate; the
  first populated one wins and a request with none is a plain transfer. The deploy group
  is populated by a non-empty \<^verbatim>\<open>Source\<close>, the call group by a non-empty \<^verbatim>\<open>Function\<close>, the
  other two by being present.
\<close>

definition payloadGroups :: "transactionRequest \<Rightarrow> (bool \<times> payloadType) list" where
  "payloadGroups reqTx =
     [((case req_Contract reqTx of None \<Rightarrow> False | Some c \<Rightarrow> Source c \<noteq> []),
       TxPayloadDeployType),
      ((case req_Contract reqTx of None \<Rightarrow> False | Some c \<Rightarrow> Function c \<noteq> []),
       TxPayloadCallType),
      (req_Candidate reqTx \<noteq> None, TxPayloadCandidateType),
      (req_Delegate reqTx \<noteq> None, TxPayloadDelegateType)]"

definition firstPopulated :: "transactionRequest \<Rightarrow> payloadType" where
  "firstPopulated reqTx =
     (case find fst (payloadGroups reqTx) of
        Some (_, t) \<Rightarrow> t
      | None \<Rightarrow> TxPayloadBinaryType)"

subsection \<open>A small node to run the handlers on\<close>

text \<open>
  Two accounts, one tail block at height 1 holding one plain transfer, and collaborators
  that are small tables. The tail block has the sender's nonce at 3. For the hash
  \<open>[7]\<close> of the block's transaction \<^verbatim>\<open>FetchEvents\<close> returns an empty slice that is not \<^verbatim>\<open>nil\<close>;
  for \<open>[8]\<close> one event of a contract's own topic; for any other hash \<^verbatim>\<open>nil\<close>.
\<close>

definition alice :: address where
  "alice = Address [1]"

definition bob :: address where
  "bob = Address [2]"

definition pk0 :: pkgs where
  "pk0 =
     \<lparr> AddressParse = (\<lambda>s. if s = ''alice'' then Inr (Address [1])
                            else if s = ''bob'' then Inr (Address [2])
                            else Inl (Failure ''address: invalid address'')),
       AddressString = (\<lambda>a. if a = Address [1] then ''alice''
                             else if a = Address [2] then ''bob'' else ''contract''),
       NewUint128FromString = (\<lambda>s. if s = ''5'' then 5 else if s = ''1'' then 1
                                    else if s = ''2000'' then 2000 else 0),
       Uint128String = (\<lambda>u. Sprintf_d (unat u)),
       DeployPayloadToBytes = (\<lambda>src ty args. Inr [100]),
       CallPayloadToBytes = (\<lambda>f args. Inr [99]),
       CandidatePayloadToBytes = (\<lambda>action. Inr [98]),
       DelegatePayloadToBytes = (\<lambda>action delegatee. Inr [97]),
       Now = 0,
       TxHash = (\<lambda>tx. [ucast (tx_nonce tx)]),
       Sha3256 = concat,
       FromUint64 = (\<lambda>n. [ucast n]),
       NewContractAddressFromHash = (\<lambda>h. (Some (Address h), None)),
       FromHex = (\<lambda>s. if s = ''07'' then ([7], None)
                       else if s = ''08'' then ([8], None)
                       else if s = ''09'' then ([9], None)
                       else ([], Some (Failure ''invalid hex string''))),
       Hex = (\<lambda>b. if b = [7] then ''07'' else ''00''),
       HashString = (\<lambda>b. if b = [7] then ''07'' else ''00''),
       TopicExecuteTxSuccess = ''chain.executeTxSuccess'',
       TopicExecuteTxFailed = ''chain.executeTxFailed'',
       MessageTypeNewBlock = ''newblock'',
       MessageTypeNewTx = ''newtx'',
       DecodeBlockToJSON = (\<lambda>d. if d = [] then Inl (Failure ''unexpected EOF'') else Inr ''{block}''),
       DecodeTxToJSON = (\<lambda>d. if d = [] then Inl (Failure ''unexpected EOF'') else Inr ''{tx}'') \<rparr>"

definition transfer :: "uint64 \<Rightarrow> transaction" where
  "transfer n =
     \<lparr> tx_chainID = 100, tx_from = Address [1], tx_to = Address [2], tx_value = 5,
       tx_nonce = n, tx_timestamp = 0, tx_type = TxPayloadBinaryType, tx_data = [],
       tx_gasPrice = 1, tx_gasLimit = 2000, tx_sign = [1] \<rparr>"

definition blk0 :: block where
  "blk0 =
     \<lparr> blk_Hash = [7], blk_ParentHash = [6], blk_Height = 1, blk_Nonce = 0,
       blk_Coinbase = Address [2], blk_Miner = Address [2], blk_Timestamp = 0,
       blk_ChainID = 100, blk_StateRoot = [], blk_TxsRoot = [], blk_EventsRoot = [],
       blk_DposContext =
         \<lparr> DynastyRoot = [], NextDynastyRoot = [], DelegateRoot = [],
           CandidateRoot = [], VoteRoot = [], MintCntRoot = [] \<rparr>,
       blk_Transactions = [transfer 7],
       GetBalance = (\<lambda>a. if a = [1] then 1000 else 0),
       GetNonce = (\<lambda>a. if a = [1] then 3 else 0),
       FetchEvents =
         (\<lambda>h. if h = [7] then (Some [], None)
               else if h = [8] then
                 (Some [\<lparr> Topic = ''chain.contract.transfer'', event_Data = ''{}'' \<rparr>], None)
               else (None, None)),
       blk_GetTransaction = (\<lambda>h. if h = [7] then (Some (transfer 7), None) else (None, None)) \<rparr>"

definition neb0 :: neblet where
  "neb0 =
     \<lparr> BlockChain =
         \<lparr> ChainID = 100,
           TailBlock = blk0,
           GetBlock = (\<lambda>h. if h = [7] then Some blk0 else None),
           GetBlockOnCanonicalChainByHeight = (\<lambda>n. if n = 1 then Some blk0 else None),
           chain_LatestIrreversibleBlock = Some blk0,
           GetTransaction = (\<lambda>h. if h = [7] then Some (transfer 7)
                                  else if h = [8] then Some (transfer 8) else None),
           EstimateGas = (\<lambda>tx. Inr 2000),
           PushAndBroadcast = (\<lambda>tx. None) \<rparr>,
       SignTransaction = (\<lambda>a tx. Inr (tx\<lparr> tx_sign := [1] \<rparr>)) \<rparr>"

definition request :: "uint64 \<Rightarrow> transactionRequest" where
  "request n =
     \<lparr> req_From = ''alice'', req_To = ''bob'', req_Value = ''5'', req_Nonce = n,
       req_GasPrice = ''1'', req_GasLimit = ''2000'', req_Contract = None,
       req_Candidate = None, req_Delegate = None \<rparr>"

text \<open>A request with both the deploy group and the call group populated.\<close>

definition deployAndCall :: transactionRequest where
  "deployAndCall =
     (request 4)\<lparr> req_Contract :=
       Some \<lparr> Source = ''module.exports = Sample;'', SourceType = ''js'',
              Function = ''init'', Args = ''[]'' \<rparr> \<rparr>"

text \<open>A request whose three numeric strings are not decimal numbers.\<close>

definition malformedAmounts :: transactionRequest where
  "malformedAmounts =
     (request 4)\<lparr> req_Value := ''12abc'', req_GasPrice := ''-1'', req_GasLimit := [] \<rparr>"

text \<open>Network messages and a chain event for the subscription stream.\<close>

definition newBlockMessage :: message where
  "newBlockMessage = \<lparr> MessageType = ''newblock'', msg_Data = [10, 1] \<rparr>"

definition newTxMessage :: message where
  "newTxMessage = \<lparr> MessageType = ''newtx'', msg_Data = [10, 2] \<rparr>"

definition chainEvent :: event where
  "chainEvent = \<lparr> Topic = ''chain.newTailBlock'', event_Data = ''{}'' \<rparr>"

section \<open>Properties\<close>

subsection \<open>Nonce check of sendTransaction\<close>

text \<open>
  C1. A request whose nonce is at most the sender's nonce in the tail block is refused
  with the nonce error: the handler marks the failure counter and returns, so the
  transaction is neither signed nor pushed to the pool. The sender's nonce is read with
  the parsed sender address.
\<close>

theorem sendTransaction_nonce_too_low:
  assumes "AddressParse pk (req_From req) = Inr addr"
    and "req_Nonce req \<le> GetNonce (TailBlock (BlockChain neb)) (Bytes addr)"
  shows "sendTransaction pk neb req = ([Mark ''metricsSendTxFailed''], Inl NonceIsInvalid)
       \<and> SendTransaction pk neb req
           = ([Mark ''metricsRPCCounter'', Mark ''metricsSendTxFailed''], Inl NonceIsInvalid)
       \<and> (\<forall>a t. SignTransactionCall a t \<notin> set (fst (SendTransaction pk neb req)))
       \<and> (\<forall>t. PushAndBroadcastCall t \<notin> set (fst (SendTransaction pk neb req)))"
  using assms by (simp add: sendTransaction_def SendTransaction_def)

theorem sendTransaction_nonce_too_low_witness:
  "AddressParse pk0 (req_From (request 3)) = Inr alice
   \<and> req_Nonce (request 3) \<le> GetNonce (TailBlock (BlockChain neb0)) (Bytes alice)
   \<and> SendTransaction pk0 neb0 (request 3)
       = ([Mark ''metricsRPCCounter'', Mark ''metricsSendTxFailed''], Inl NonceIsInvalid)"
proof -
  have parsed: "AddressParse pk0 (req_From (request 3)) = Inr alice"
    by (simp add: pk0_def request_def alice_def)
  have low: "req_Nonce (request 3) \<le> GetNonce (TailBlock (BlockChain neb0)) (Bytes alice)"
    by (simp add: neb0_def blk0_def request_def alice_def)
  from sendTransaction_nonce_too_low [OF parsed low] parsed low show ?thesis
    by simp
qed

subsection \<open>Payload selection of parseTransaction\<close>

lemma selectPayload_firstPopulated:
  "fst (selectPayload pk reqTx) = firstPopulated reqTx"
  by (simp add: selectPayload_def firstPopulated_def payloadGroups_def Let_def
           split: option.splits)

lemma parseTransaction_Inr_iff:
  "parseTransaction pk neb reqTx = Inr tx \<longleftrightarrow>
     (\<exists>f t p. AddressParse pk (req_From reqTx) = Inr f
            \<and> AddressParse pk (req_To reqTx) = Inr t
            \<and> snd (selectPayload pk reqTx) = Inr p
            \<and> tx = NewTransaction pk (ChainID (BlockChain neb)) f t
                     (NewUint128FromString pk (req_Value reqTx)) (req_Nonce reqTx)
                     (fst (selectPayload pk reqTx)) p
                     (NewUint128FromString pk (req_GasPrice reqTx))
                     (NewUint128FromString pk (req_GasLimit reqTx)))"
  by (cases "selectPayload pk reqTx")
     (auto simp: parseTransaction_def Let_def split: sum.splits)

lemma parseTransaction_Inl_iff:
  "parseTransaction pk neb reqTx = Inl err \<longleftrightarrow>
     AddressParse pk (req_From reqTx) = Inl err
     \<or> (\<exists>f. AddressParse pk (req_From reqTx) = Inr f
            \<and> (AddressParse pk (req_To reqTx) = Inl err
                \<or> (\<exists>t. AddressParse pk (req_To reqTx) = Inr t
                       \<and> snd (selectPayload pk reqTx) = Inl err)))"
  by (cases "selectPayload pk reqTx")
     (auto simp: parseTransaction_def Let_def split: sum.splits)

text \<open>
  C2. The payload type \<^verbatim>\<open>parseTransaction\<close> selects is the first populated group in the
  order deploy, call, candidate, delegate, and a plain transfer when none is populated.
  A transaction it builds carries that type. With both a non-empty \<^verbatim>\<open>Source\<close> and a
  non-empty \<^verbatim>\<open>Function\<close> the type is deploy, so never call. With no group populated the
  type is binary, and the transaction is built, with no payload bytes, as soon as both
  addresses parse.
\<close>

theorem parseTransaction_payload_precedence:
  "fst (selectPayload pk reqTx) = firstPopulated reqTx
   \<and> (\<forall>tx. parseTransaction pk neb reqTx = Inr tx \<longrightarrow> tx_type tx = firstPopulated reqTx)
   \<and> (\<forall>f t p. AddressParse pk (req_From reqTx) = Inr f
              \<and> AddressParse pk (req_To reqTx) = Inr t
              \<and> snd (selectPayload pk reqTx) = Inr p
         \<longrightarrow> (\<exists>tx. parseTransaction pk neb reqTx = Inr tx
                  \<and> tx_type tx = firstPopulated reqTx \<and> tx_data tx = p))
   \<and> (\<forall>c. req_Contract reqTx = Some c \<and> Source c \<noteq> [] \<and> Function c \<noteq> []
         \<longrightarrow> firstPopulated reqTx = TxPayloadDeployType
           \<and> firstPopulated reqTx \<noteq> TxPayloadCallType
           \<and> snd (selectPayload pk reqTx)
               = DeployPayloadToBytes pk (Source c) (SourceType c) (Args c))
   \<and> ((case req_Contract reqTx of None \<Rightarrow> True | Some c \<Rightarrow> Source c = [] \<and> Function c = [])
        \<and> req_Candidate reqTx = None \<and> req_Delegate reqTx = None
         \<longrightarrow> firstPopulated reqTx = TxPayloadBinaryType
           \<and> selectPayload pk reqTx = (TxPayloadBinaryType, Inr []))"
proof (intro conjI allI impI)
  show "fst (selectPayload pk reqTx) = firstPopulated reqTx"
    by (rule selectPayload_firstPopulated)
next
  fix tx assume "parseTransaction pk neb reqTx = Inr tx"
  then show "tx_type tx = firstPopulated reqTx"
    by (auto simp: parseTransaction_Inr_iff NewTransaction_def selectPayload_firstPopulated)
next
  fix f t p
  assume "AddressParse pk (req_From reqTx) = Inr f
        \<and> AddressParse pk (req_To reqTx) = Inr t
        \<and> snd (selectPayload pk reqTx) = Inr p"
  then show "\<exists>tx. parseTransaction pk neb reqTx = Inr tx
                \<and> tx_type tx = firstPopulated reqTx \<and> tx_data tx = p"
    by (simp add: parseTransaction_Inr_iff NewTransaction_def selectPayload_firstPopulated)
next
  fix c assume both: "req_Contract reqTx = Some c \<and> Source c \<noteq> [] \<and> Function c \<noteq> []"
  then show "firstPopulated reqTx = TxPayloadDeployType"
    by (simp add: firstPopulated_def payloadGroups_def)
  then show "firstPopulated reqTx \<noteq> TxPayloadCallType"
    by simp
  from both show "snd (selectPayload pk reqTx)
      = DeployPayloadToBytes pk (Source c) (SourceType c) (Args c)"
    by (simp add: selectPayload_def)
next
  assume none: "(case req_Contract reqTx of None \<Rightarrow> True
                 | Some c \<Rightarrow> Source c = [] \<and> Function c = [])
              \<and> req_Candidate reqTx = None \<and> req_Delegate reqTx = None"
  then show "firstPopulated reqTx = TxPayloadBinaryType"
    by (simp add: firstPopulated_def payloadGroups_def split: option.splits)
  from none show "selectPayload pk reqTx = (TxPayloadBinaryType, Inr [])"
    by (simp add: selectPayload_def split: option.splits)
qed

theorem parseTransaction_payload_precedence_witness:
  "req_Contract deployAndCall
     = Some \<lparr> Source = ''module.exports = Sample;'', SourceType = ''js'',
              Function = ''init'', Args = ''[]'' \<rparr>
   \<and> firstPopulated deployAndCall = TxPayloadDeployType
   \<and> map_sum id tx_type (parseTransaction pk0 neb0 deployAndCall) = Inr TxPayloadDeployType
   \<and> map_sum id tx_type (parseTransaction pk0 neb0 (request 4)) = Inr TxPayloadBinaryType"
proof -
  have c: "req_Contract deployAndCall
     = Some \<lparr> Source = ''module.exports = Sample;'', SourceType = ''js'',
              Function = ''init'', Args = ''[]'' \<rparr>"
    by (simp add: deployAndCall_def)
  have ok: "AddressParse pk0 (req_From deployAndCall) = Inr alice
          \<and> AddressParse pk0 (req_To deployAndCall) = Inr bob
          \<and> snd (selectPayload pk0 deployAndCall) = Inr [100]"
    by (simp add: deployAndCall_def request_def pk0_def alice_def bob_def selectPayload_def)
  have ok': "AddressParse pk0 (req_From (request 4)) = Inr alice
          \<and> AddressParse pk0 (req_To (request 4)) = Inr bob
          \<and> snd (selectPayload pk0 (request 4)) = Inr []"
    by (simp add: request_def pk0_def alice_def bob_def selectPayload_def)
  have none: "firstPopulated (request 4) = TxPayloadBinaryType"
    using parseTransaction_payload_precedence [of pk0 "request 4" neb0]
    by (simp add: request_def)
  from parseTransaction_payload_precedence [of pk0 deployAndCall neb0]
       parseTransaction_payload_precedence [of pk0 "request 4" neb0] c ok ok' none
  show ?thesis
    by fastforce
qed

subsection \<open>Status of a transaction receipt\<close>

lemma statusLoop_no_execution_topic:
  "\<forall>v \<in> set evs. Topic v \<noteq> TopicExecuteTxSuccess pk \<and> Topic v \<noteq> TopicExecuteTxFailed pk
   \<Longrightarrow> statusLoop pk status evs = status"
  by (induction evs) simp_all

lemma statusLoop_first_execution_topic:
  assumes "\<forall>v \<in> set pre. Topic v \<noteq> TopicExecuteTxSuccess pk \<and> Topic v \<noteq> TopicExecuteTxFailed pk"
    and "Topic e = TopicExecuteTxSuccess pk \<or> Topic e = TopicExecuteTxFailed pk"
  shows "statusLoop pk status (pre @ e # post)
           = (if Topic e = TopicExecuteTxSuccess pk then 1 else 0)"
  using assms by (induction pre) auto

lemma toTransactionResponse_status:
  assumes "toTransactionResponse pk neb tx = Inr resp"
  shows "tr_Status resp =
           (case fst (FetchEvents (TailBlock (BlockChain neb)) (TxHash pk tx)) of
              None \<Rightarrow> 2
            | Some evs \<Rightarrow> statusLoop pk 0 evs)"
  using assms
  by (auto simp: toTransactionResponse_def Let_def split: if_splits prod.splits option.splits)

text \<open>
  C3. The receipt of a found transaction has status 2 (pending) only when \<^verbatim>\<open>FetchEvents\<close>
  returns a \<^verbatim>\<open>nil\<close> slice. On the sample node the transaction with hash \<open>[7]\<close> has an empty
  slice of events that is not \<^verbatim>\<open>nil\<close>, and the one with hash \<open>[8]\<close> has a single event of
  another topic: neither has a success or failure event, and both receipts carry status 0,
  the code of a failed execution.
\<close>

theorem receipt_status_without_execution_event:
  "fst (FetchEvents (TailBlock (BlockChain neb0)) [7]) = Some []
   \<and> map_sum id tr_Status (snd (GetTransactionReceipt pk0 neb0 ''07'')) = Inr 0
   \<and> fst (FetchEvents (TailBlock (BlockChain neb0)) [8])
       = Some [\<lparr> Topic = ''chain.contract.transfer'', event_Data = ''{}'' \<rparr>]
   \<and> map_sum id tr_Status (snd (GetTransactionReceipt pk0 neb0 ''08'')) = Inr 0"
  by (simp add: GetTransactionReceipt_def toTransactionResponse_def neb0_def blk0_def
        pk0_def transfer_def Let_def)

subsection \<open>Transactions of a block response\<close>

lemma toBlockResponse_Transactions:
  "toBlockResponse pk neb block fullTransaction = Inr resp \<Longrightarrow> br_Transactions resp = []"
  by (auto simp: toBlockResponse_def Let_def split: option.splits)

text \<open>
  C4. The block at height 1 of the sample node holds one transaction; the response of
  \<^verbatim>\<open>GetBlockByHeight\<close> for it has an empty transaction list, with the full-transaction
  flag set and without it, and so have the responses of \<^verbatim>\<open>GetBlockByHash\<close> and
  \<^verbatim>\<open>LatestIrreversibleBlock\<close>.
\<close>

theorem block_response_without_transactions:
  "blk_Transactions blk0 = [transfer 7]
   \<and> map_sum id br_Transactions
       (snd (GetBlockByHeight pk0 neb0 \<lparr> bn_Height = 1, bn_FullTransaction = True \<rparr>)) = Inr []
   \<and> map_sum id br_Transactions
       (snd (GetBlockByHeight pk0 neb0 \<lparr> bn_Height = 1, bn_FullTransaction = False \<rparr>)) = Inr []
   \<and> map_sum id br_Transactions
       (snd (GetBlockByHash pk0 neb0 \<lparr> bh_Hash = ''07'', bh_FullTransaction = True \<rparr>)) = Inr []
   \<and> map_sum id br_Transactions (snd (LatestIrreversibleBlock pk0 neb0)) = Inr []"
  by (simp add: GetBlockByHeight_def GetBlockByHash_def LatestIrreversibleBlock_def
        toBlockResponse_def neb0_def blk0_def pk0_def Let_def)

subsection \<open>Numeric fields of a request\<close>

lemma selectPayload_numeric_fields:
  "selectPayload pk (reqTx\<lparr> req_Value := v, req_GasPrice := gp, req_GasLimit := gl \<rparr>)
     = selectPayload pk reqTx"
  by (simp add: selectPayload_def Let_def split: option.splits)

text \<open>
  C5, as the claim states it, fails: on the sample node a request whose value, gas price
  and gas limit are not decimal numbers is built into a transaction, carrying for each
  field what \<^verbatim>\<open>util.NewUint128FromString\<close> returned.
\<close>

theorem malformed_amounts_build_a_transaction:
  "parseTransaction pk0 neb0 malformedAmounts
     = Inr (NewTransaction pk0 100 alice bob (NewUint128FromString pk0 ''12abc'') 4
              TxPayloadBinaryType [] (NewUint128FromString pk0 ''-1'')
              (NewUint128FromString pk0 []))"
  by (simp add: parseTransaction_def selectPayload_def malformedAmounts_def request_def
        pk0_def neb0_def alice_def bob_def)

text \<open>
  C5, amended. \<^verbatim>\<open>parseTransaction\<close> has no failure for a numeric field: replacing value,
  gas price and gas limit by any strings changes neither whether it fails nor the error,
  which comes from an address or from the payload only; a transaction it builds carries
  for each of the three fields what \<^verbatim>\<open>util.NewUint128FromString\<close> returns for the string;
  and it builds one whenever both addresses parse and the payload serialises.
\<close>

theorem parseTransaction_numeric_fields_never_fail:
  "(\<forall>err. parseTransaction pk neb
             (reqTx\<lparr> req_Value := v, req_GasPrice := gp, req_GasLimit := gl \<rparr>) = Inl err
           \<longleftrightarrow> parseTransaction pk neb reqTx = Inl err)
   \<and> (\<forall>tx. parseTransaction pk neb reqTx = Inr tx
         \<longrightarrow> tx_value tx = NewUint128FromString pk (req_Value reqTx)
           \<and> tx_gasPrice tx = NewUint128FromString pk (req_GasPrice reqTx)
           \<and> tx_gasLimit tx = NewUint128FromString pk (req_GasLimit reqTx))
   \<and> (\<forall>f t p. AddressParse pk (req_From reqTx) = Inr f
              \<and> AddressParse pk (req_To reqTx) = Inr t
              \<and> snd (selectPayload pk reqTx) = Inr p
         \<longrightarrow> (\<exists>tx. parseTransaction pk neb reqTx = Inr tx))"
proof (intro conjI allI impI)
  fix err
  show "parseTransaction pk neb
          (reqTx\<lparr> req_Value := v, req_GasPrice := gp, req_GasLimit := gl \<rparr>) = Inl err
        \<longleftrightarrow> parseTransaction pk neb reqTx = Inl err"
    by (simp add: parseTransaction_Inl_iff selectPayload_numeric_fields)
next
  fix tx assume built: "parseTransaction pk neb reqTx = Inr tx"
  then show "tx_value tx = NewUint128FromString pk (req_Value reqTx)"
    by (auto simp: parseTransaction_Inr_iff NewTransaction_def)
  from built show "tx_gasPrice tx = NewUint128FromString pk (req_GasPrice reqTx)"
    by (auto simp: parseTransaction_Inr_iff NewTransaction_def)
  from built show "tx_gasLimit tx = NewUint128FromString pk (req_GasLimit reqTx)"
    by (auto simp: parseTransaction_Inr_iff NewTransaction_def)
next
  fix f t p
  assume "AddressParse pk (req_From reqTx) = Inr f
        \<and> AddressParse pk (req_To reqTx) = Inr t
        \<and> snd (selectPayload pk reqTx) = Inr p"
  then show "\<exists>tx. parseTransaction pk neb reqTx = Inr tx"
    by (simp add: parseTransaction_Inr_iff)
qed

theorem parseTransaction_numeric_fields_never_fail_witness:
  "AddressParse pk0 (req_From malformedAmounts) = Inr alice
   \<and> AddressParse pk0 (req_To malformedAmounts) = Inr bob
   \<and> snd (selectPayload pk0 malformedAmounts) = Inr []
   \<and> (\<exists>tx. parseTransaction pk0 neb0 malformedAmounts = Inr tx
           \<and> tx_value tx = NewUint128FromString pk0 ''12abc'')"
proof -
  have ok: "AddressParse pk0 (req_From malformedAmounts) = Inr alice
          \<and> AddressParse pk0 (req_To malformedAmounts) = Inr bob
          \<and> snd (selectPayload pk0 malformedAmounts) = Inr []"
    by (simp add: malformedAmounts_def request_def pk0_def alice_def bob_def selectPayload_def)
  have v: "req_Value malformedAmounts = ''12abc''"
    by (simp add: malformedAmounts_def)
  from parseTransaction_numeric_fields_never_fail [where pk = pk0 and neb = neb0 and reqTx = malformedAmounts] ok v
  show ?thesis
    by fastforce
qed

subsection \<open>Contract address of a deploy transaction\<close>

text \<open>
  C6. Take a request that passes the nonce check, is built and signed into the deploy
  transaction \<open>tx\<close> and is accepted by the pool, and let \<open>a\<close> be the address derived from
  the hash of the sender's address bytes and the bytes of the nonce. Then
  \<^verbatim>\<open>sendTransaction\<close> reports \<open>a\<close>, and the receipt of every deploy transaction with the same
  sender and nonce, on any node and whatever its value, gas price, gas limit, payload or
  events, reports the same address.
\<close>

theorem contract_address_of_deploy:
  assumes "AddressParse pk (req_From req) = Inr addr"
    and "GetNonce (TailBlock (BlockChain neb)) (Bytes addr) < req_Nonce req"
    and "parseTransaction pk neb req = Inr tx0"
    and "SignTransaction neb (tx_from tx0) tx0 = Inr tx"
    and "PushAndBroadcast (BlockChain neb) tx = None"
    and "tx_type tx = TxPayloadDeployType"
    and "NewContractAddressFromHash pk
           (Sha3256 pk [Bytes (tx_from tx), FromUint64 pk (tx_nonce tx)]) = (Some a, None)"
  shows "snd (sendTransaction pk neb req)
           = Inr \<lparr> Txhash = HashString pk (TxHash pk tx),
                   st_ContractAddress = AddressString pk a \<rparr>
       \<and> (\<forall>neb' tx'. tx_type tx' = TxPayloadDeployType
              \<and> tx_from tx' = tx_from tx \<and> tx_nonce tx' = tx_nonce tx
            \<longrightarrow> map_sum id tr_ContractAddress (toTransactionResponse pk neb' tx')
                  = Inr (AddressString pk a))"
proof -
  have sent: "snd (sendTransaction pk neb req)
           = Inr \<lparr> Txhash = HashString pk (TxHash pk tx),
                   st_ContractAddress = AddressString pk a \<rparr>"
    using assms by (simp add: sendTransaction_def contractAddressOf_def not_le [symmetric])
  have receipt: "map_sum id tr_ContractAddress (toTransactionResponse pk neb' tx')
                   = Inr (AddressString pk a)"
    if "tx_type tx' = TxPayloadDeployType \<and> tx_from tx' = tx_from tx \<and> tx_nonce tx' = tx_nonce tx"
    for neb' tx'
    using that assms(7)
    by (simp add: toTransactionResponse_def GenerateContractAddress_def contractAddressOf_def
          Let_def)
  from sent receipt show ?thesis
    by blast
qed

theorem contract_address_of_deploy_witness:
  "AddressParse pk0 (req_From deployAndCall) = Inr alice
   \<and> GetNonce (TailBlock (BlockChain neb0)) (Bytes alice) < req_Nonce deployAndCall
   \<and> snd (sendTransaction pk0 neb0 deployAndCall)
       = Inr \<lparr> Txhash = ''00'', st_ContractAddress = ''contract'' \<rparr>
   \<and> map_sum id tr_ContractAddress
       (toTransactionResponse pk0 neb0
          ((transfer 4)\<lparr> tx_type := TxPayloadDeployType, tx_value := 77, tx_gasLimit := 1 \<rparr>))
       = Inr ''contract''"
proof -
  let ?unsigned = "\<lparr> tx_chainID = 100, tx_from = Address [1], tx_to = Address [2], tx_value = 5,
                tx_nonce = 4, tx_timestamp = 0, tx_type = TxPayloadDeployType,
                tx_data = [100], tx_gasPrice = 1, tx_gasLimit = 2000, tx_sign = [] \<rparr>"
  let ?signed = "?unsigned\<lparr> tx_sign := [1] \<rparr>"
  have parsed: "AddressParse pk0 (req_From deployAndCall) = Inr alice"
    by (simp add: deployAndCall_def request_def pk0_def alice_def)
  have fresh: "GetNonce (TailBlock (BlockChain neb0)) (Bytes alice) < req_Nonce deployAndCall"
    by (simp add: deployAndCall_def request_def neb0_def blk0_def alice_def)
  have built: "parseTransaction pk0 neb0 deployAndCall = Inr ?unsigned"
    by (simp add: parseTransaction_def selectPayload_def deployAndCall_def request_def
          NewTransaction_def pk0_def neb0_def)
  have signed: "SignTransaction neb0 (tx_from ?unsigned) ?unsigned = Inr ?signed"
    by (simp add: neb0_def)
  have pushed: "PushAndBroadcast (BlockChain neb0) ?signed = None"
    by (simp add: neb0_def)
  have deploy: "tx_type ?signed = TxPayloadDeployType"
    by simp
  have derived: "NewContractAddressFromHash pk0
           (Sha3256 pk0 [Bytes (tx_from ?signed), FromUint64 pk0 (tx_nonce ?signed)])
             = (Some (Address [1, 4]), None)"
    by (simp add: pk0_def)
  have same: "tx_type ((transfer 4)\<lparr> tx_type := TxPayloadDeployType, tx_value := 77,
                                     tx_gasLimit := 1 \<rparr>) = TxPayloadDeployType
            \<and> tx_from ((transfer 4)\<lparr> tx_type := TxPayloadDeployType, tx_value := 77,
                                       tx_gasLimit := 1 \<rparr>) = tx_from ?signed
            \<and> tx_nonce ((transfer 4)\<lparr> tx_type := TxPayloadDeployType, tx_value := 77,
                                        tx_gasLimit := 1 \<rparr>) = tx_nonce ?signed"
    by (simp add: transfer_def)
  have str: "HashString pk0 (TxHash pk0 ?signed) = ''00''"
            "AddressString pk0 (Address [1, 4]) = ''contract''"
    by (simp_all add: pk0_def)
  from contract_address_of_deploy [OF parsed fresh built signed pushed deploy derived]
       same parsed fresh str
  show ?thesis
    by simp
qed

subsection \<open>Account state at a height\<close>

lemma Sprintf_d_3: "Sprintf_d 3 = ''3''"
  by code_simp

lemma Sprintf_d_1000: "Sprintf_d 1000 = ''1000''"
  by code_simp

lemma Sprintf_d_2000: "Sprintf_d 2000 = ''2000''"
  by code_simp

text \<open>
  C7. For an address that parses, \<^verbatim>\<open>GetAccountState\<close> with height 0, the value of an unset
  height, answers with the balance and nonce of the tail block; with a height above 0 it
  answers from the block the canonical chain has at that height, and fails with
  \<^verbatim>\<open>block not found\<close> when the chain has none.
\<close>

theorem GetAccountState_height:
  assumes "AddressParse pk (gas_Address req) = Inr addr"
  shows "(gas_Height req = 0 \<longrightarrow>
            GetAccountState pk neb req
              = ([Mark ''metricsRPCCounter'', Mark ''metricsAccountStateSuccess''],
                 Inr \<lparr> Balance = Uint128String pk
                                   (GetBalance (TailBlock (BlockChain neb)) (Bytes addr)),
                       as_Nonce = Sprintf_d
                                   (unat (GetNonce (TailBlock (BlockChain neb)) (Bytes addr))) \<rparr>))
       \<and> (0 < gas_Height req
            \<and> GetBlockOnCanonicalChainByHeight (BlockChain neb) (gas_Height req) = None \<longrightarrow>
            GetAccountState pk neb req
              = ([Mark ''metricsRPCCounter'', Mark ''metricsAccountStateFailed''],
                 Inl BlockNotFound))
       \<and> (\<forall>b. 0 < gas_Height req
            \<and> GetBlockOnCanonicalChainByHeight (BlockChain neb) (gas_Height req) = Some b \<longrightarrow>
            GetAccountState pk neb req
              = ([Mark ''metricsRPCCounter'', Mark ''metricsAccountStateSuccess''],
                 Inr \<lparr> Balance = Uint128String pk (GetBalance b (Bytes addr)),
                       as_Nonce = Sprintf_d (unat (GetNonce b (Bytes addr))) \<rparr>))"
  using assms by (simp add: GetAccountState_def)

theorem GetAccountState_height_witness:
  "AddressParse pk0 ''alice'' = Inr alice
   \<and> GetAccountState pk0 neb0 \<lparr> gas_Address = ''alice'', gas_Height = 0 \<rparr>
       = ([Mark ''metricsRPCCounter'', Mark ''metricsAccountStateSuccess''],
          Inr \<lparr> Balance = ''1000'', as_Nonce = ''3'' \<rparr>)
   \<and> GetBlockOnCanonicalChainByHeight (BlockChain neb0) 5 = None
   \<and> GetAccountState pk0 neb0 \<lparr> gas_Address = ''alice'', gas_Height = 5 \<rparr>
       = ([Mark ''metricsRPCCounter'', Mark ''metricsAccountStateFailed''], Inl BlockNotFound)"
proof -
  have parsed0: "AddressParse pk0 (gas_Address \<lparr> gas_Address = ''alice'', gas_Height = 0 \<rparr>)
                   = Inr alice"
    by (simp add: pk0_def alice_def)
  have parsed5: "AddressParse pk0 (gas_Address \<lparr> gas_Address = ''alice'', gas_Height = 5 \<rparr>)
                   = Inr alice"
    by (simp add: pk0_def alice_def)
  have absent: "GetBlockOnCanonicalChainByHeight (BlockChain neb0) 5 = None"
    by (simp add: neb0_def)
  have tail: "Uint128String pk0 (GetBalance (TailBlock (BlockChain neb0)) (Bytes alice)) = ''1000''"
             "Sprintf_d (unat (GetNonce (TailBlock (BlockChain neb0)) (Bytes alice))) = ''3''"
    by (simp_all add: pk0_def neb0_def blk0_def alice_def Sprintf_d_1000 Sprintf_d_3)
  from GetAccountState_height [OF parsed0, of neb0] GetAccountState_height [OF parsed5, of neb0]
       parsed0 absent tail
  show ?thesis
    by simp
qed

subsection \<open>Gas used by a transaction\<close>

text \<open>
  C8. \<^verbatim>\<open>GetGasUsed\<close> looks the transaction up by the decoded hash before anything else. When
  the chain has no such transaction it fails with \<^verbatim>\<open>transaction not found\<close> and its only
  call is the request counter; the estimator is called only on a transaction the lookup
  returned; and a gas value is returned only as the estimator's result for that
  transaction, which it is whenever the estimator succeeds.
\<close>

theorem GetGasUsed_resolves_first:
  "(\<forall>h. FromHex pk hash = (h, None) \<and> GetTransaction (BlockChain neb) h = None
       \<longrightarrow> GetGasUsed pk neb hash = ([Mark ''metricsRPCCounter''], Inl TransactionNotFound))
   \<and> (\<forall>tx. EstimateGasCall tx \<in> set (fst (GetGasUsed pk neb hash))
       \<longrightarrow> snd (FromHex pk hash) = None
         \<and> GetTransaction (BlockChain neb) (fst (FromHex pk hash)) = Some tx)
   \<and> (\<forall>g. snd (GetGasUsed pk neb hash) = Inr g
       \<longrightarrow> (\<exists>tx gas. GetTransaction (BlockChain neb) (fst (FromHex pk hash)) = Some tx
                   \<and> EstimateGas (BlockChain neb) tx = Inr gas
                   \<and> EstimateGasCall tx \<in> set (fst (GetGasUsed pk neb hash))
                   \<and> g = Uint128String pk gas))
   \<and> (\<forall>h tx gas. FromHex pk hash = (h, None) \<and> GetTransaction (BlockChain neb) h = Some tx
         \<and> EstimateGas (BlockChain neb) tx = Inr gas
       \<longrightarrow> GetGasUsed pk neb hash
             = ([Mark ''metricsRPCCounter'', EstimateGasCall tx], Inr (Uint128String pk gas)))"
proof -
  obtain h e where decoded: "FromHex pk hash = (h, e)"
    by (cases "FromHex pk hash")
  show ?thesis
  proof (cases e)
    case (Some err)
    with decoded show ?thesis
      by (simp add: GetGasUsed_def)
  next
    case None
    note hex = this
    show ?thesis
    proof (cases "GetTransaction (BlockChain neb) h")
      case None
      with decoded hex show ?thesis
        by (simp add: GetGasUsed_def)
    next
      case (Some tx)
      note found = this
      show ?thesis
      proof (cases "EstimateGas (BlockChain neb) tx")
        case (Inl err)
        with decoded hex found show ?thesis
          by (simp add: GetGasUsed_def)
      next
        case (Inr gas)
        with decoded hex found show ?thesis
          by (simp add: GetGasUsed_def)
      qed
    qed
  qed
qed

theorem GetGasUsed_resolves_first_witness:
  "FromHex pk0 ''09'' = ([9], None) \<and> GetTransaction (BlockChain neb0) [9] = None
   \<and> GetGasUsed pk0 neb0 ''09'' = ([Mark ''metricsRPCCounter''], Inl TransactionNotFound)
   \<and> FromHex pk0 ''07'' = ([7], None) \<and> GetTransaction (BlockChain neb0) [7] = Some (transfer 7)
   \<and> EstimateGas (BlockChain neb0) (transfer 7) = Inr 2000
   \<and> GetGasUsed pk0 neb0 ''07''
       = ([Mark ''metricsRPCCounter'', EstimateGasCall (transfer 7)], Inr ''2000'')"
proof -
  have absent: "FromHex pk0 ''09'' = ([9], None) \<and> GetTransaction (BlockChain neb0) [9] = None"
    by (simp add: pk0_def neb0_def)
  have present: "FromHex pk0 ''07'' = ([7], None)
               \<and> GetTransaction (BlockChain neb0) [7] = Some (transfer 7)
               \<and> EstimateGas (BlockChain neb0) (transfer 7) = Inr 2000"
    by (simp add: pk0_def neb0_def)
  have str: "Uint128String pk0 2000 = ''2000''"
    by (simp add: pk0_def Sprintf_d_2000)
  have not_found: "GetGasUsed pk0 neb0 ''09''
                     = ([Mark ''metricsRPCCounter''], Inl TransactionNotFound)"
    using GetGasUsed_resolves_first [of pk0 "''09''" neb0] absent by blast
  have estimated: "GetGasUsed pk0 neb0 ''07''
                     = ([Mark ''metricsRPCCounter'', EstimateGasCall (transfer 7)],
                        Inr (Uint128String pk0 2000))"
    using GetGasUsed_resolves_first [of pk0 "''07''" neb0] present by blast
  from not_found estimated absent present str show ?thesis
    by simp
qed

subsection \<open>Events of a hash the tail block does not hold\<close>

text \<open>
  C10. When the tail block's transaction lookup for the decoded hash returns neither a
  transaction nor an error, \<^verbatim>\<open>GetEventsByHash\<close> returns a \<^verbatim>\<open>nil\<close> response and a \<^verbatim>\<open>nil\<close> error:
  no not-found error and no empty event list. The decoding error of the hash is dropped.
\<close>

theorem GetEventsByHash_nil_transaction:
  assumes "blk_GetTransaction (TailBlock (BlockChain neb)) (fst (FromHex pk hash)) = (None, None)"
  shows "GetEventsByHash pk neb hash = ([Mark ''metricsRPCCounter''], Inr None)"
  using assms by (simp add: GetEventsByHash_def)

theorem GetEventsByHash_nil_transaction_witness:
  "blk_GetTransaction (TailBlock (BlockChain neb0)) (fst (FromHex pk0 ''09'')) = (None, None)
   \<and> GetEventsByHash pk0 neb0 ''09'' = ([Mark ''metricsRPCCounter''], Inr None)"
proof -
  have absent: "blk_GetTransaction (TailBlock (BlockChain neb0)) (fst (FromHex pk0 ''09''))
                  = (None, None)"
    by (simp add: pk0_def neb0_def blk0_def)
  from GetEventsByHash_nil_transaction [OF absent] absent show ?thesis
    by simp
qed

subsection \<open>The subscription stream\<close>

lemma streamLoop_sends_only:
  "c \<in> set (fst (streamLoop pk ds)) \<Longrightarrow> \<exists>r. c = Send r"
  by (induction pk ds rule: streamLoop.induct)
     (auto simp: Let_def split: option.splits sum.splits prod.splits if_splits)

lemma streamLoop_chain_send_failure:
  "streamLoop pk ((ChainEvent e, Some err) # ds)
     = ([Send \<lparr> MsgType = Topic e, sr_Data = event_Data e \<rparr>], Some err)"
  by simp

lemma streamLoop_decode_failure:
  "MessageType m = MessageTypeNewBlock pk \<Longrightarrow> DecodeBlockToJSON pk (msg_Data m) = Inl err
   \<Longrightarrow> streamLoop pk ((NetEvent m, sendErr) # ds) = ([], Some err)"
  "MessageType m \<noteq> MessageTypeNewBlock pk \<Longrightarrow> MessageType m = MessageTypeNewTx pk
   \<Longrightarrow> DecodeTxToJSON pk (msg_Data m) = Inl err
   \<Longrightarrow> streamLoop pk ((NetEvent m, sendErr) # ds) = ([], Some err)"
  by simp_all

lemma streamLoop_net_send_result_unread:
  "streamLoop pk ((NetEvent m, sendErr) # ds) = streamLoop pk ((NetEvent m, None) # ds)"
  by simp

lemma Subscribe_returned:
  assumes "Subscribe pk topics ds = (calls, Some err)"
  shows "\<exists>streaming. streamLoop pk ds = (streaming, Some err)
           \<and> calls = Mark ''metricsRPCCounter'' # map EmitterRegister topics
                 @ [NetRegister (MessageTypeNewBlock pk), NetRegister (MessageTypeNewTx pk)]
                 @ streaming
                 @ [NetDeregister (MessageTypeNewTx pk), NetDeregister (MessageTypeNewBlock pk)]
                 @ map EmitterDeregister topics"
  using assms
  by (cases "streamLoop pk ds") (auto simp: Subscribe_def Let_def split: option.splits)

text \<open>
  C9. When \<^verbatim>\<open>Subscribe\<close> returns, its deferred calls deregister both message kinds and every
  topic once (\<open>Subscribe_returned\<close>), and a failed send of a chain event or a failed
  decoding makes it return (\<open>streamLoop_chain_send_failure\<close>, \<open>streamLoop_decode_failure\<close>).
  A failed send of a network message does not (\<open>streamLoop_net_send_result_unread\<close>): on the
  sample node, with a new-block message and then a new-transaction message whose sends
  both fail, the session sends for the second after the first has failed, has not
  returned when both are handled, and has deregistered nothing. With a chain event after
  the failed send of the new-block message, the event is streamed.
\<close>

theorem subscribe_continues_after_failed_send:
  "Subscribe pk0 [''chain.newTailBlock'']
     [(NetEvent newBlockMessage, Some (Failure ''transport is closing'')),
      (NetEvent newTxMessage, Some (Failure ''transport is closing''))]
     = ([Mark ''metricsRPCCounter'', EmitterRegister ''chain.newTailBlock'',
         NetRegister ''newblock'', NetRegister ''newtx'',
         Send \<lparr> MsgType = ''newblock'', sr_Data = ''{block}'' \<rparr>,
         Send \<lparr> MsgType = ''newtx'', sr_Data = ''{tx}'' \<rparr>],
        None)
   \<and> Subscribe pk0 [''chain.newTailBlock'']
     [(NetEvent newBlockMessage, Some (Failure ''transport is closing'')),
      (ChainEvent chainEvent, None)]
     = ([Mark ''metricsRPCCounter'', EmitterRegister ''chain.newTailBlock'',
         NetRegister ''newblock'', NetRegister ''newtx'',
         Send \<lparr> MsgType = ''newblock'', sr_Data = ''{block}'' \<rparr>,
         Send \<lparr> MsgType = ''chain.newTailBlock'', sr_Data = ''{}'' \<rparr>],
        None)"
  by (simp add: Subscribe_def pk0_def newBlockMessage_def newTxMessage_def chainEvent_def)

end
